theory Spec2Isabelle
  imports Complex_Main
begin

section \<open>JavaScript strings and values\<close>

text \<open>
  A JavaScript string is a sequence of UTF-16 code units. A \<^typ>\<open>char\<close> stands for the code
  unit with the same number, so the development covers every input whose code units are
  below 256 (ASCII and Latin-1). On that range \<^verbatim>\<open>toLowerCase\<close> maps a code unit to a code
  unit, and the classes \<^verbatim>\<open>\s\<close>, \<^verbatim>\<open>\d\<close> and \<^verbatim>\<open>\w\<close> are the ones below.
\<close>

definition code :: "char \<Rightarrow> nat" where
  "code c = of_char c"

text \<open>\<^verbatim>\<open>\s\<close> (and what \<^verbatim>\<open>trim\<close> removes): TAB, LF, VT, FF, CR, space, NBSP.\<close>

definition is_space :: "char \<Rightarrow> bool" where
  "is_space c = (let n = code c in (9 \<le> n \<and> n \<le> 13) \<or> n = 32 \<or> n = 160)"

text \<open>\<^verbatim>\<open>\d\<close> is \<^verbatim>\<open>[0-9]\<close>.\<close>

definition is_digit :: "char \<Rightarrow> bool" where
  "is_digit c = (let n = code c in 48 \<le> n \<and> n \<le> 57)"

text \<open>\<^verbatim>\<open>[a-zA-Z]\<close>.\<close>

definition is_alpha :: "char \<Rightarrow> bool" where
  "is_alpha c = (let n = code c in (65 \<le> n \<and> n \<le> 90) \<or> (97 \<le> n \<and> n \<le> 122))"

text \<open>\<^verbatim>\<open>\w\<close> is \<^verbatim>\<open>[A-Za-z0-9_]\<close>.\<close>

definition is_word_char :: "char \<Rightarrow> bool" where
  "is_word_char c = (is_alpha c \<or> is_digit c \<or> code c = 95)"

text \<open>
  \<^verbatim>\<open>toLowerCase\<close> on one code unit below 256: \<^verbatim>\<open>A-Z\<close>, and the Latin-1 capitals
  U+00C0 to U+00DE without the multiplication sign U+00D7, move up by 32.
\<close>

definition to_lower_char :: "char \<Rightarrow> char" where
  "to_lower_char c =
     (let n = code c in
      if (65 \<le> n \<and> n \<le> 90) \<or> (192 \<le> n \<and> n \<le> 214) \<or> (216 \<le> n \<and> n \<le> 222)
      then char_of (n + 32) else c)"

definition toLowerCase :: "string \<Rightarrow> string" where
  "toLowerCase s = map to_lower_char s"

text \<open>\<^verbatim>\<open>s.replace(/,/g, ' ')\<close>\<close>

definition replace_commas :: "string \<Rightarrow> string" where
  "replace_commas s = map (\<lambda>c. if c = CHR '','' then CHR '' '' else c) s"

text \<open>\<^verbatim>\<open>s.replace(/\s+/g, ' ')\<close>: every maximal run of white space becomes one space.\<close>

function collapse_spaces :: "string \<Rightarrow> string" where
  "collapse_spaces [] = []"
| "collapse_spaces (c # cs) =
     (if is_space c then CHR '' '' # collapse_spaces (dropWhile is_space cs)
      else c # collapse_spaces cs)"
  by pat_completeness auto
termination
  by (relation "measure length") (auto simp: length_dropWhile_le le_imp_less_Suc)

text \<open>\<^verbatim>\<open>s.trim()\<close>\<close>

definition trim :: "string \<Rightarrow> string" where
  "trim s = rev (dropWhile is_space (rev (dropWhile is_space s)))"

text \<open>
  \<^verbatim>\<open>s.split(/\s+/)\<close>: the pieces between maximal runs of white space. The empty string gives
  one empty piece, and a run at either end gives an empty piece there.
\<close>

function split_spaces :: "string \<Rightarrow> string list" where
  "split_spaces [] = [[]]"
| "split_spaces (c # cs) =
     (if is_space c then [] # split_spaces (dropWhile is_space cs)
      else (case split_spaces cs of
              [] \<Rightarrow> [[c]]
            | w # ws \<Rightarrow> (c # w) # ws))"
  by pat_completeness auto
termination
  by (relation "measure length") (auto simp: length_dropWhile_le le_imp_less_Suc)

text \<open>
  The values that reach \<^verbatim>\<open>expandedWords\<close>. A property read \<^verbatim>\<open>table[key]\<close> on an object
  literal finds the literal's own properties and, failing that, the properties the literal
  inherits from \<^verbatim>\<open>Object.prototype\<close>: its built-in functions, and the accessor
  \<^verbatim>\<open>__proto__\<close>, which returns \<^verbatim>\<open>Object.prototype\<close> itself.
\<close>

datatype jsval =
    JStr string
  | JBuiltin string
  | JObjectPrototype

text \<open>The names \<^verbatim>\<open>Object.prototype\<close> defines, with the name of the function each one holds.\<close>

definition object_prototype :: "(string \<times> jsval) list" where
  "object_prototype =
     [(''constructor'', JBuiltin ''Object''),
      (''__proto__'', JObjectPrototype),
      (''hasOwnProperty'', JBuiltin ''hasOwnProperty''),
      (''isPrototypeOf'', JBuiltin ''isPrototypeOf''),
      (''propertyIsEnumerable'', JBuiltin ''propertyIsEnumerable''),
      (''toLocaleString'', JBuiltin ''toLocaleString''),
      (''toString'', JBuiltin ''toString''),
      (''valueOf'', JBuiltin ''valueOf''),
      (''__defineGetter__'', JBuiltin ''__defineGetter__''),
      (''__defineSetter__'', JBuiltin ''__defineSetter__''),
      (''__lookupGetter__'', JBuiltin ''__lookupGetter__''),
      (''__lookupSetter__'', JBuiltin ''__lookupSetter__'')]"

text \<open>\<^verbatim>\<open>table[key]\<close>, with \<open>None\<close> for \<^verbatim>\<open>undefined\<close>.\<close>

definition js_get :: "(string \<times> string) list \<Rightarrow> string \<Rightarrow> jsval option" where
  "js_get table key =
     (case map_of table key of
        Some v \<Rightarrow> Some (JStr v)
      | None \<Rightarrow> map_of object_prototype key)"

text \<open>The truth value of \<^verbatim>\<open>if (v)\<close>: only the empty string and \<^verbatim>\<open>undefined\<close> are false here.\<close>

fun truthy :: "jsval option \<Rightarrow> bool" where
  "truthy None = False"
| "truthy (Some (JStr s)) = (s \<noteq> [])"
| "truthy (Some _) = True"

text \<open>
  The string \<^verbatim>\<open>join\<close> makes of an element. A built-in function prints as its native
  source text (written here as V8 prints it), \<^verbatim>\<open>Object.prototype\<close> as \<^verbatim>\<open>[object Object]\<close>.
\<close>

fun js_to_string :: "jsval \<Rightarrow> string" where
  "js_to_string (JStr s) = s"
| "js_to_string (JBuiltin f) = ''function '' @ f @ ''() { [native code] }''"
| "js_to_string JObjectPrototype = ''[object Object]''"

text \<open>\<^verbatim>\<open>xs.join(' ')\<close>\<close>

fun join_space :: "jsval list \<Rightarrow> string" where
  "join_space [] = []"
| "join_space [v] = js_to_string v"
| "join_space (v # vs) = js_to_string v @ CHR '' '' # join_space vs"

section \<open>Query normalizer: \<^verbatim>\<open>buildSmartQuery\<close>\<close>

definition directionAbbreviations :: "(string \<times> string) list" where
  "directionAbbreviations =
     [(''n'', ''north''), (''s'', ''south''), (''e'', ''east''), (''w'', ''west''),
      (''ne'', ''northeast''), (''nw'', ''northwest''),
      (''se'', ''southeast''), (''sw'', ''southwest'')]"

definition streetTypeAbbreviations :: "(string \<times> string) list" where
  "streetTypeAbbreviations =
     [(''st'', ''street''), (''ave'', ''avenue''), (''av'', ''avenue''),
      (''blvd'', ''boulevard''), (''dr'', ''drive''), (''rd'', ''road''),
      (''ln'', ''lane''), (''ct'', ''court''), (''cir'', ''circle''),
      (''pl'', ''place''), (''pkwy'', ''parkway''), (''hwy'', ''highway''),
      (''sq'', ''square''), (''ter'', ''terrace''), (''trl'', ''trail''),
      (''way'', ''way'')]"

text \<open>\<^verbatim>\<open>word.replace(/[^\w]/g, '')\<close>\<close>

definition clean_word :: "string \<Rightarrow> string" where
  "clean_word word = filter is_word_char word"

text \<open>\<^verbatim>\<open>/^\d+$/.test(w)\<close>\<close>

definition all_digits :: "string \<Rightarrow> bool" where
  "all_digits w = (w \<noteq> [] \<and> list_all is_digit w)"

text \<open>\<^verbatim>\<open>/^[a-zA-Z]{2,4}$/.test(w)\<close>\<close>

definition short_alpha :: "string \<Rightarrow> bool" where
  "short_alpha w = (2 \<le> length w \<and> length w \<le> 4 \<and> list_all is_alpha w)"

text \<open>
  The body of the \<^verbatim>\<open>forEach\<close> after cleaning: what one clean word pushes on
  \<^verbatim>\<open>expandedWords\<close>, the first rule that applies deciding.
\<close>

definition expand_word :: "string \<Rightarrow> jsval" where
  "expand_word cleanWord =
     (if all_digits cleanWord then JStr cleanWord
      else if truthy (js_get directionAbbreviations cleanWord)
        then the (js_get directionAbbreviations cleanWord)
      else if truthy (js_get streetTypeAbbreviations cleanWord)
        then the (js_get streetTypeAbbreviations cleanWord)
      else if short_alpha cleanWord then JStr (cleanWord @ ''*'')
      else JStr cleanWord)"

text \<open>One round of the \<^verbatim>\<open>forEach\<close>: an empty word, or one that is empty once cleaned, pushes nothing.\<close>

definition expand_step :: "string \<Rightarrow> jsval list" where
  "expand_step word =
     (if word = [] then []
      else let cleanWord = clean_word word in
        if cleanWord = [] then [] else [expand_word cleanWord])"

definition normalized :: "string \<Rightarrow> string" where
  "normalized input = toLowerCase (trim (collapse_spaces (replace_commas input)))"

definition buildSmartQuery :: "string \<Rightarrow> string" where
  "buildSmartQuery input =
     join_space (concat (map expand_step (split_spaces (normalized input))))"

section \<open>Distance calculator: \<^verbatim>\<open>getDistance\<close>\<close>

text \<open>
  JavaScript numbers are taken as real numbers: the arithmetic of \<^verbatim>\<open>getDistance\<close> is the exact
  one, without the rounding of IEEE doubles. The real-valued function therefore has no NaN:
  in doubles the term \<open>a\<close> can round to a value just above 1 for nearly antipodal
  coordinates, where \<^verbatim>\<open>Math.sqrt(1-a)\<close> and the result are NaN. \<^verbatim>\<open>Math.atan2(y, x)\<close> is the
  angle of the point \<open>(x, y)\<close>, in \<open>(-\<pi>, \<pi>]\<close>.
\<close>

definition atan2 :: "real \<Rightarrow> real \<Rightarrow> real" where
  "atan2 y x =
     (if 0 < x then arctan (y / x)
      else if x < 0 then (if 0 \<le> y then arctan (y / x) + pi else arctan (y / x) - pi)
      else if 0 < y then pi / 2
      else if y < 0 then - (pi / 2)
      else 0)"

definition haversine_a :: "real \<Rightarrow> real \<Rightarrow> real \<Rightarrow> real \<Rightarrow> real" where
  "haversine_a lat1 lon1 lat2 lon2 =
     (let dLat = (lat2 - lat1) * pi / 180;
          dLon = (lon2 - lon1) * pi / 180
      in sin (dLat / 2) * sin (dLat / 2) +
         cos (lat1 * pi / 180) * cos (lat2 * pi / 180) *
         sin (dLon / 2) * sin (dLon / 2))"

definition getDistance :: "real \<Rightarrow> real \<Rightarrow> real \<Rightarrow> real \<Rightarrow> real" where
  "getDistance lat1 lon1 lat2 lon2 =
     (let R = 6371;
          a = haversine_a lat1 lon1 lat2 lon2;
          c = 2 * atan2 (sqrt a) (sqrt (1 - a))
      in R * c)"

section \<open>Result filter and ranker: \<^verbatim>\<open>searchAddresses\<close>\<close>

text \<open>
  A field of a provider record is a string or is missing (\<open>None\<close> for \<^verbatim>\<open>undefined\<close>).
  \<^verbatim>\<open>lat\<close> and \<^verbatim>\<open>lon\<close> hold the numbers \<^verbatim>\<open>parseFloat\<close> reads from the provider's strings.
\<close>

record addr =
  house_number :: "string option"
  road :: "string option"
  building :: "string option"
  amenity :: "string option"
  shop :: "string option"
  office :: "string option"
  city :: "string option"
  town :: "string option"
  village :: "string option"
  state :: "string option"
  postcode :: "string option"
  country :: "string option"

record place =
  display_name :: string
  lat :: real
  lon :: real
  address :: "addr option"
  place_type :: string
  distance :: "real option"

text \<open>
  The object \<^verbatim>\<open>getUserLocation\<close> builds: each coordinate is a number, or is missing when the
  geolocation provider's answer has none.
\<close>

record location =
  latitude :: "real option"
  longitude :: "real option"

text \<open>Truth value of a string field: missing and empty are false.\<close>

definition str_truthy :: "string option \<Rightarrow> bool" where
  "str_truthy v = (case v of None \<Rightarrow> False | Some s \<Rightarrow> s \<noteq> [])"

text \<open>\<^verbatim>\<open>a || b\<close>: the left operand when it is true, the right one otherwise.\<close>

definition js_or :: "string option \<Rightarrow> string option \<Rightarrow> string option" where
  "js_or a b = (if str_truthy a then a else b)"

text \<open>Truth value of a number field: missing and zero are false.\<close>

definition num_truthy :: "real option \<Rightarrow> bool" where
  "num_truthy v = (case v of None \<Rightarrow> False | Some x \<Rightarrow> x \<noteq> 0)"

text \<open>\<^verbatim>\<open>userLocation && userLocation.latitude && userLocation.longitude\<close>\<close>

definition location_usable :: "location option \<Rightarrow> bool" where
  "location_usable userLocation =
     (case userLocation of
        None \<Rightarrow> False
      | Some l \<Rightarrow> num_truthy (latitude l) \<and> num_truthy (longitude l))"

text \<open>
  The request URL, by its parameters: \<open>q\<close> is the query before URI encoding, \<open>viewbox\<close> the
  four numbers of the bias box, sent together with \<^verbatim>\<open>bounded=0\<close>.
\<close>

record request =
  q :: string
  limit :: nat
  addressdetails :: nat
  countrycodes :: string
  viewbox :: "(real \<times> real \<times> real \<times> real) option"

definition build_request :: "string \<Rightarrow> location option \<Rightarrow> request" where
  "build_request query userLocation =
     (let searchQuery = buildSmartQuery query;
          url = \<lparr>q = searchQuery, limit = 50, addressdetails = 1,
                 countrycodes = ''us'', viewbox = None\<rparr>
      in case userLocation of
           Some l \<Rightarrow>
             (case (latitude l, longitude l) of
                (Some la, Some lo) \<Rightarrow>
                  if la \<noteq> 0 \<and> lo \<noteq> 0
                  then let buffer = 10
                       in url\<lparr>viewbox := Some (lo - buffer, la + buffer, lo + buffer, la - buffer)\<rparr>
                  else url
              | _ \<Rightarrow> url)
         | None \<Rightarrow> url)"

definition excludeTypes :: "string list" where
  "excludeTypes =
     [''administrative'', ''state'', ''country'', ''city'', ''county'', ''region'']"

text \<open>The callback of \<^verbatim>\<open>data.filter\<close>.\<close>

definition keep_place :: "place \<Rightarrow> bool" where
  "keep_place p =
     (case address p of
        None \<Rightarrow> False
      | Some a \<Rightarrow>
          if place_type p \<in> set excludeTypes then False
          else let hasRoad = road a;
                   hasSpecificPlace =
                     js_or (js_or (js_or (js_or (building a) (amenity a)) (shop a)) (office a))
                       (house_number a)
               in str_truthy (js_or hasRoad hasSpecificPlace))"

definition validAddresses :: "place list \<Rightarrow> place list" where
  "validAddresses data = filter keep_place data"

text \<open>
  The comparator \<^verbatim>\<open>(a, b) => a.distance - b.distance\<close>. A missing distance makes the
  difference NaN, which \<^verbatim>\<open>sort\<close> reads as 0.
\<close>

definition sort_compare :: "place \<Rightarrow> place \<Rightarrow> real" where
  "sort_compare a b =
     (case (distance a, distance b) of
        (Some x, Some y) \<Rightarrow> x - y
      | _ \<Rightarrow> 0)"

text \<open>
  \<^verbatim>\<open>Array.prototype.sort\<close> is stable (ECMAScript 2019): it is modelled by stable insertion,
  an element going in front of the first one that does not compare smaller.
\<close>

primrec js_insert :: "place \<Rightarrow> place list \<Rightarrow> place list" where
  "js_insert x [] = [x]"
| "js_insert x (y # ys) =
     (if sort_compare x y \<le> 0 then x # y # ys else y # js_insert x ys)"

definition js_sort :: "place list \<Rightarrow> place list" where
  "js_sort xs = foldr js_insert xs []"

text \<open>The assignment \<^verbatim>\<open>place.distance = getDistance(...)\<close> of the \<^verbatim>\<open>forEach\<close>.\<close>

definition set_distance :: "real \<Rightarrow> real \<Rightarrow> place \<Rightarrow> place" where
  "set_distance la lo p = p\<lparr>distance := Some (getDistance la lo (lat p) (lon p))\<rparr>"

text \<open>What \<^verbatim>\<open>searchAddresses\<close> makes of the provider's answer \<open>data\<close>.\<close>

definition searchAddresses_result :: "location option \<Rightarrow> place list \<Rightarrow> place list" where
  "searchAddresses_result userLocation data =
     (let valid = validAddresses data
      in case userLocation of
           Some l \<Rightarrow>
             (case (latitude l, longitude l) of
                (Some la, Some lo) \<Rightarrow>
                  if la \<noteq> 0 \<and> lo \<noteq> 0
                  then js_sort (map (set_distance la lo) valid)
                  else valid
              | _ \<Rightarrow> valid)
         | None \<Rightarrow> valid)"

text \<open>An error value: what \<^verbatim>\<open>fetch\<close> or \<^verbatim>\<open>response.json()\<close> throws.\<close>

record js_error =
  err_name :: string
  err_message :: string

text \<open>
  \<^verbatim>\<open>searchAddresses\<close> with the provider as a parameter: the request goes out, and the answer
  is filtered and ranked; a failure of the provider is the failure of the call.
\<close>

definition searchAddresses ::
  "(request \<Rightarrow> js_error + place list) \<Rightarrow> string \<Rightarrow> location option \<Rightarrow> js_error + place list" where
  "searchAddresses fetch query userLocation =
     (case fetch (build_request query userLocation) of
        Inl err \<Rightarrow> Inl err
      | Inr data \<Rightarrow> Inr (searchAddresses_result userLocation data))"

section \<open>Address search orchestrator: \<^verbatim>\<open>AddressSearch\<close>\<close>

text \<open>The class name of the status icon: plain, \<^verbatim>\<open>loading\<close>, or \<^verbatim>\<open>success\<close>.\<close>

datatype status = Idle | Loading | Success

text \<open>An item of the suggestions list: the "no valid addresses" line, or a place under its label.\<close>

datatype suggestion = NoAddresses | Item string place

text \<open>The object handed to \<^verbatim>\<open>onAddressSelect\<close>.\<close>

record selection =
  sel_latitude :: real
  sel_longitude :: real
  sel_display_name :: string
  sel_address :: "addr option"
  sel_type :: string

text \<open>A lookup whose promise has not settled: its controller, what it was called with, and
  whether its controller has been aborted.\<close>

record lookup =
  controller :: nat
  sent :: request
  reference :: "location option"
  aborted :: bool

text \<open>
  The fields of an \<^verbatim>\<open>AddressSearch\<close> come first. Then the browser's side: \<open>timers\<close> holds the
  debounce timers that are set and have neither fired nor been cleared, each with the
  \<^verbatim>\<open>val\<close> its callback closes over; \<open>checkmarks\<close> counts the pending two-second timers of
  \<^verbatim>\<open>displayResults\<close>; \<open>inflight\<close> holds the unsettled lookups; \<open>next_id\<close> is the next
  timer or controller identity (timer identities are positive, hence true). The last four
  fields record what the component does to the outside: the calls of the two callbacks,
  of \<^verbatim>\<open>console.error\<close>, and the requests sent to the provider.
\<close>

record session =
  onAddressSelect :: bool
  onAutocompleteResults :: bool
  userLocation :: "location option"
  searchTimeout :: "nat option"
  currentSearchRequest :: "nat option"
  isLocationSelected :: bool
  input_value :: string
  statusIcon :: status
  suggestionsList :: "suggestion list"
  timers :: "(nat \<times> string) list"
  checkmarks :: nat
  inflight :: "lookup list"
  next_id :: nat
  selected :: "selection list"
  autocomplete_results :: "place list list"
  console_errors :: "js_error list"
  requests_sent :: "request list"

text \<open>The constructor; the two arguments say whether each callback was passed.\<close>

definition new_session :: "bool \<Rightarrow> bool \<Rightarrow> session" where
  "new_session sel res =
     \<lparr>onAddressSelect = sel, onAutocompleteResults = res, userLocation = None,
      searchTimeout = None, currentSearchRequest = None, isLocationSelected = False,
      input_value = [], statusIcon = Idle, suggestionsList = [], timers = [],
      checkmarks = 0, inflight = [], next_id = 1, selected = [],
      autocomplete_results = [], console_errors = [], requests_sent = []\<rparr>"

definition setUserLocation :: "location option \<Rightarrow> session \<Rightarrow> session" where
  "setUserLocation l s = s\<lparr>userLocation := l\<rparr>"

text \<open>\<^verbatim>\<open>if (this.searchTimeout) { clearTimeout(this.searchTimeout); this.searchTimeout = null; }\<close>\<close>

definition clear_search_timeout :: "session \<Rightarrow> session" where
  "clear_search_timeout s =
     (case searchTimeout s of
        None \<Rightarrow> s
      | Some t \<Rightarrow> s\<lparr>timers := filter (\<lambda>(i, v). i \<noteq> t) (timers s), searchTimeout := None\<rparr>)"

text \<open>\<^verbatim>\<open>if (this.currentSearchRequest) { this.currentSearchRequest.abort(); this.currentSearchRequest = null; }\<close>\<close>

definition abort_search_request :: "session \<Rightarrow> session" where
  "abort_search_request s =
     (case currentSearchRequest s of
        None \<Rightarrow> s
      | Some c \<Rightarrow>
          s\<lparr>inflight := map (\<lambda>r. if controller r = c then r\<lparr>aborted := True\<rparr> else r) (inflight s),
            currentSearchRequest := None\<rparr>)"

text \<open>The head of \<^verbatim>\<open>handleInput\<close>, up to the reset of the selection flag.\<close>

definition cancel_pending :: "session \<Rightarrow> session" where
  "cancel_pending s = (abort_search_request (clear_search_timeout s))\<lparr>isLocationSelected := False\<rparr>"

definition handleInput :: "string \<Rightarrow> session \<Rightarrow> session" where
  "handleInput text s =
     (let val = trim text;
          s1 = cancel_pending s
      in if length val < 3
         then s1\<lparr>suggestionsList := [], statusIcon := Idle\<rparr>
         else s1\<lparr>statusIcon := Loading,
                 searchTimeout := Some (next_id s1),
                 timers := timers s1 @ [(next_id s1, val)],
                 next_id := Suc (next_id s1)\<rparr>)"

text \<open>
  The debounce timer fires: the callback runs up to its \<^verbatim>\<open>await\<close>. It makes a controller,
  and \<^verbatim>\<open>searchAddresses\<close> builds the request and sends it.
\<close>

definition timer_fires :: "nat \<Rightarrow> session \<Rightarrow> session" where
  "timer_fires t s =
     (case map_of (timers s) t of
        None \<Rightarrow> s
      | Some val \<Rightarrow>
          let c = next_id s;
              req = build_request val (userLocation s)
          in s\<lparr>timers := filter (\<lambda>(i, v). i \<noteq> t) (timers s),
                currentSearchRequest := Some c,
                next_id := Suc c,
                inflight := inflight s @
                  [\<lparr>controller = c, sent = req, reference = userLocation s, aborted = False\<rparr>],
                requests_sent := requests_sent s @ [req]\<rparr>)"

definition parts_of :: "string option \<Rightarrow> string list" where
  "parts_of v = (if str_truthy v then [the v] else [])"

text \<open>\<^verbatim>\<open>parts.join(', ')\<close>\<close>

fun join_comma :: "string list \<Rightarrow> string" where
  "join_comma [] = []"
| "join_comma [x] = x"
| "join_comma (x # xs) = x @ '', '' @ join_comma xs"

definition buildCleanAddress :: "addr option \<Rightarrow> string" where
  "buildCleanAddress a =
     (case a of
        None \<Rightarrow> []
      | Some ad \<Rightarrow>
          join_comma
            (parts_of (house_number ad) @ parts_of (road ad) @
             parts_of (js_or (js_or (city ad) (town ad)) (village ad)) @
             parts_of (state ad) @ parts_of (postcode ad) @ parts_of (country ad)))"

definition suggestion_of :: "place \<Rightarrow> suggestion" where
  "suggestion_of p =
     (let cleanAddress = buildCleanAddress (address p)
      in Item (if cleanAddress \<noteq> [] then cleanAddress else display_name p) p)"

definition displayResults :: "place list \<Rightarrow> session \<Rightarrow> session" where
  "displayResults results s =
     (if results = []
      then s\<lparr>suggestionsList := [NoAddresses], statusIcon := Idle\<rparr>
      else s\<lparr>statusIcon := Success,
              checkmarks := Suc (checkmarks s),
              suggestionsList := map suggestion_of (take 10 results)\<rparr>)"

text \<open>The two-second timer of \<^verbatim>\<open>displayResults\<close> fires.\<close>

definition checkmark_fires :: "session \<Rightarrow> session" where
  "checkmark_fires s =
     (if checkmarks s = 0 then s
      else let s1 = s\<lparr>checkmarks := checkmarks s - 1\<rparr>
           in if statusIcon s1 = Success then s1\<lparr>statusIcon := Idle\<rparr> else s1)"

text \<open>
  The rest of the timer callback, run when the awaited \<^verbatim>\<open>searchAddresses\<close> settles with
  \<open>outcome\<close>: the \<^verbatim>\<open>try\<close> block after the \<^verbatim>\<open>await\<close> for a result, the \<^verbatim>\<open>catch\<close> block for an
  error. The value is \<open>Inr\<close> of the new state when the callback ends normally, and would be \<open>Inl\<close>
  of the error were it thrown on.
\<close>

definition search_settled :: "js_error + place list \<Rightarrow> session \<Rightarrow> js_error + session" where
  "search_settled outcome s =
     (case outcome of
        Inr results \<Rightarrow>
          if isLocationSelected s then Inr (s\<lparr>statusIcon := Idle\<rparr>)
          else let s1 = displayResults results s;
                   s2 = (if onAutocompleteResults s1
                         then s1\<lparr>autocomplete_results := autocomplete_results s1 @ [results]\<rparr>
                         else s1)
               in Inr (s2\<lparr>currentSearchRequest := None\<rparr>)
      | Inl err \<Rightarrow>
          if err_name err = ''AbortError'' then Inr (s\<lparr>statusIcon := Idle\<rparr>)
          else Inr (s\<lparr>console_errors := console_errors s @ [err],
                      statusIcon := Idle,
                      currentSearchRequest := None\<rparr>))"

text \<open>What \<^verbatim>\<open>fetch\<close> rejects with once its signal is aborted.\<close>

definition abort_error :: js_error where
  "abort_error = \<lparr>err_name = ''AbortError'', err_message = ''The operation was aborted.''\<rparr>"

text \<open>
  The lookup of controller \<open>c\<close> settles. When its controller has been aborted, \<^verbatim>\<open>fetch\<close>
  rejects with the abort error whatever the provider does. Otherwise the provider
  answered \<open>answer\<close>, which \<^verbatim>\<open>searchAddresses\<close> filters and ranks with the location it was
  called with.
\<close>

definition lookup_settles :: "nat \<Rightarrow> js_error + place list \<Rightarrow> session \<Rightarrow> session" where
  "lookup_settles c answer s =
     (case find (\<lambda>r. controller r = c) (inflight s) of
        None \<Rightarrow> s
      | Some r \<Rightarrow>
          (let outcome = (if aborted r then Inl abort_error
                          else case answer of
                            Inl err \<Rightarrow> Inl err
                          | Inr data \<Rightarrow> Inr (searchAddresses_result (reference r) data));
               s1 = s\<lparr>inflight := filter (\<lambda>r. controller r \<noteq> c) (inflight s)\<rparr>
           in (case search_settled outcome s1 of
                 Inr s2 \<Rightarrow> s2
               | Inl err \<Rightarrow> s1)))"

definition selectAddress :: "place \<Rightarrow> string \<Rightarrow> session \<Rightarrow> session" where
  "selectAddress p cleanAddress s =
     (let s1 = abort_search_request (s\<lparr>isLocationSelected := True\<rparr>);
          s2 = s1\<lparr>input_value := (if cleanAddress \<noteq> [] then cleanAddress else display_name p),
                  suggestionsList := [],
                  statusIcon := Idle\<rparr>
      in if onAddressSelect s2
         then s2\<lparr>selected := selected s2 @
                [\<lparr>sel_latitude = lat p, sel_longitude = lon p,
                  sel_display_name = display_name p, sel_address = address p,
                  sel_type = place_type p\<rparr>]\<rparr>
         else s2)"

text \<open>
  What can happen to a session, one event at a time, on the single event queue: a keystroke,
  a debounce timer firing, a lookup settling, a click on a suggestion, a checkmark timer
  firing, the geolocation arriving.
\<close>

datatype event =
    Input string
  | TimerFires nat
  | LookupSettles nat "js_error + place list"
  | Select place
  | CheckmarkFires
  | SetUserLocation "location option"

fun step :: "event \<Rightarrow> session \<Rightarrow> session" where
  "step (Input text) s = handleInput text s"
| "step (TimerFires t) s = timer_fires t s"
| "step (LookupSettles c answer) s = lookup_settles c answer s"
| "step (Select p) s = selectAddress p (buildCleanAddress (address p)) s"
| "step CheckmarkFires s = checkmark_fires s"
| "step (SetUserLocation l) s = setUserLocation l s"

definition run :: "event list \<Rightarrow> session \<Rightarrow> session" where
  "run evs s = fold step evs s"

fun is_input :: "event \<Rightarrow> bool" where
  "is_input (Input text) = True"
| "is_input _ = False"

text \<open>The lookups in flight that have not been cancelled.\<close>

definition live_requests :: "session \<Rightarrow> lookup list" where
  "live_requests s = filter (\<lambda>r. \<not> aborted r) (inflight s)"

definition in_flight :: "nat \<Rightarrow> session \<Rightarrow> bool" where
  "in_flight c s = (find (\<lambda>r. controller r = c) (inflight s) \<noteq> None)"

text \<open>
  What holds of a session between any two events: at most one debounce timer is set and the
  session's handle names it; at most one lookup is in flight and not cancelled and the
  session's handle names it; and no such lookup is in flight while a timer is set.
\<close>

definition session_inv :: "session \<Rightarrow> bool" where
  "session_inv s =
     (length (timers s) \<le> 1 \<and> length (live_requests s) \<le> 1 \<and>
      list_all (\<lambda>(i, v). searchTimeout s = Some i) (timers s) \<and>
      list_all (\<lambda>r. currentSearchRequest s = Some (controller r)) (live_requests s) \<and>
      (timers s = [] \<or> live_requests s = []))"

section \<open>The claims' own words, and example data\<close>

text \<open>
  The classification of a clean word as the specification words it: the two tables are
  exactly their listed entries.
\<close>

definition spec_classify :: "string \<Rightarrow> string" where
  "spec_classify w =
     (if all_digits w then w
      else case map_of directionAbbreviations w of
        Some full \<Rightarrow> full
      | None \<Rightarrow>
          (case map_of streetTypeAbbreviations w of
             Some full \<Rightarrow> full
           | None \<Rightarrow> if short_alpha w then w @ ''*'' else w))"

text \<open>A field names something when it is there and not empty.\<close>

definition named :: "string option \<Rightarrow> bool" where
  "named v = (v \<noteq> None \<and> v \<noteq> Some [])"

text \<open>The filtering policy as the specification words it.\<close>

definition spec_retained :: "place \<Rightarrow> bool" where
  "spec_retained p =
     (case address p of
        None \<Rightarrow> False
      | Some a \<Rightarrow>
          place_type p \<notin> {''administrative'', ''state'', ''country'', ''city'', ''county'', ''region''} \<and>
          (named (road a) \<or>
           named (building a) \<or> named (amenity a) \<or> named (shop a) \<or> named (office a) \<or>
           named (house_number a)))"

definition no_addr :: addr where
  "no_addr =
     \<lparr>house_number = None, road = None, building = None, amenity = None, shop = None,
      office = None, city = None, town = None, village = None, state = None,
      postcode = None, country = None\<rparr>"

definition example_house :: place where
  "example_house =
     \<lparr>display_name = ''1600 Pennsylvania Avenue NW, Washington'',
      lat = 38.8977, lon = - 77.0365,
      address = Some (no_addr\<lparr>house_number := Some ''1600'',
                              road := Some ''Pennsylvania Avenue NW''\<rparr>),
      place_type = ''house'', distance = None\<rparr>"

definition example_city :: place where
  "example_city =
     \<lparr>display_name = ''Main Street, Springfield'',
      lat = 39.7817, lon = - 89.6501,
      address = Some (no_addr\<lparr>road := Some ''Main Street'', city := Some ''Springfield''\<rparr>),
      place_type = ''city'', distance = None\<rparr>"

definition example_shop :: place where
  "example_shop =
     \<lparr>display_name = ''Pike Place Market, Seattle'',
      lat = 47.6097, lon = - 122.3422,
      address = Some (no_addr\<lparr>shop := Some ''Pike Place Market''\<rparr>),
      place_type = ''marketplace'', distance = None\<rparr>"

text \<open>A user located on the prime meridian (Greenwich).\<close>

definition greenwich :: location where
  "greenwich = \<lparr>latitude = Some 51.4779, longitude = Some 0\<rparr>"

text \<open>What \<^verbatim>\<open>fetch\<close> rejects with when the network is down.\<close>

definition network_error :: js_error where
  "network_error = \<lparr>err_name = ''TypeError'', err_message = ''Failed to fetch''\<rparr>"

text \<open>A user located on the equator.\<close>

definition equator_user :: location where
  "equator_user = \<lparr>latitude = Some 0, longitude = Some (- 78.4678)\<rparr>"

text \<open>The sort key: the distance a candidate carries (0 when it carries none).\<close>

definition dist_key :: "place \<Rightarrow> real" where
  "dist_key p = (case distance p of Some d \<Rightarrow> d | None \<Rightarrow> 0)"

section \<open>Properties of the query normalizer\<close>

lemmas char_defs =
  code_def is_space_def is_digit_def is_alpha_def is_word_char_def to_lower_char_def

lemma object_prototype_miss:
  "map_of object_prototype w = None \<Longrightarrow> js_get table w = map_option JStr (map_of table w)"
  by (simp add: js_get_def split: option.splits)

lemma directionAbbreviations_values:
  "map_of directionAbbreviations w = Some full \<Longrightarrow> full \<noteq> []"
  by (auto simp: directionAbbreviations_def split: if_splits)

lemma streetTypeAbbreviations_values:
  "map_of streetTypeAbbreviations w = Some full \<Longrightarrow> full \<noteq> []"
  by (auto simp: streetTypeAbbreviations_def split: if_splits)

text \<open>
  For every clean word that is not a property name of \<^verbatim>\<open>Object.prototype\<close>, the code
  classifies as the specification says: digits first, then directions, then street types,
  then the wildcard, then the word itself.
\<close>

lemma expand_word_spec:
  assumes "map_of object_prototype w = None"
  shows "expand_word w = JStr (spec_classify w)"
proof (cases "all_digits w")
  case True
  then show ?thesis by (simp add: expand_word_def spec_classify_def)
next
  case False
  show ?thesis
  proof (cases "map_of directionAbbreviations w")
    case (Some full)
    then show ?thesis
      using False directionAbbreviations_values [OF Some]
      by (simp add: expand_word_def spec_classify_def object_prototype_miss [OF assms])
  next
    case None
    note dir = this
    show ?thesis
    proof (cases "map_of streetTypeAbbreviations w")
      case (Some full)
      then show ?thesis
        using False dir streetTypeAbbreviations_values [OF Some]
        by (simp add: expand_word_def spec_classify_def object_prototype_miss [OF assms])
    next
      case None
      then show ?thesis
        using False dir
        by (simp add: expand_word_def spec_classify_def object_prototype_miss [OF assms])
    qed
  qed
qed

text \<open>
  A word that lower-casing leaves alone, as every clean word is, is the name of an
  inherited property only when it is \<^verbatim>\<open>constructor\<close> or \<^verbatim>\<open>__proto__\<close>.
\<close>

lemma prototype_names_cased:
  "list_all (\<lambda>n. toLowerCase n \<noteq> n \<or> n = ''constructor'' \<or> n = ''__proto__'')
     (map fst object_prototype)"
  by code_simp

lemma lowercase_prototype_names:
  assumes "toLowerCase w = w" "w \<noteq> ''constructor''" "w \<noteq> ''__proto__''"
  shows "map_of object_prototype w = None"
proof -
  have "w \<notin> set (map fst object_prototype)"
    using assms prototype_names_cased unfolding list_all_iff by blast
  then show ?thesis
    by (simp add: map_of_eq_None_iff)
qed

lemma expand_word_spec_lowercase:
  assumes "toLowerCase w = w" "w \<noteq> ''constructor''" "w \<noteq> ''__proto__''"
  shows "expand_word w = JStr (spec_classify w)"
  by (rule expand_word_spec [OF lowercase_prototype_names [OF assms]])

lemma buildSmartQuery_St: "buildSmartQuery ''St'' = ''street''"
  by code_simp

text \<open>
  Claim C3. The claim: every clean word is classified by the first rule that applies, digits,
  directions (the eight listed), street types (the sixteen listed), short alphabetic words,
  and any other word passes through unchanged. The code reads the direction table with
  \<^verbatim>\<open>directionAbbreviations[cleanWord]\<close>, which also finds what the table inherits: for the
  word \<^verbatim>\<open>constructor\<close> the read gives the function \<^verbatim>\<open>Object\<close>, the direction rule applies, and
  the query holds the function's source text where the claim has the word itself.
\<close>

theorem expand_word_constructor:
  "expand_word ''constructor'' = JBuiltin ''Object'' \<and>
   spec_classify ''constructor'' = ''constructor'' \<and>
   buildSmartQuery ''constructor'' = ''function Object() { [native code] }'' \<and>
   buildSmartQuery ''123 __proto__ St'' = ''123 [object Object] street''"
  by code_simp

text \<open>
  Claim C4, as amended. \<^verbatim>\<open>main\<close> and \<^verbatim>\<open>elm\<close> are alphabetic words of four and three letters
  that are in neither table, so each gets the wildcard: \<^verbatim>\<open>normalize("123 Main St.")\<close> is
  \<^verbatim>\<open>"123 main* street"\<close> and \<^verbatim>\<open>normalize("N Elm Ave")\<close> is \<^verbatim>\<open>"north elm* avenue"\<close>.
\<close>

theorem buildSmartQuery_examples:
  "buildSmartQuery ''123 Main St.'' = ''123 main* street'' \<and>
   buildSmartQuery ''N Elm Ave'' = ''north elm* avenue''"
  by code_simp

text \<open>The two values claim C4 states are not the ones the code returns.\<close>

theorem buildSmartQuery_examples_counterexample:
  "buildSmartQuery ''123 Main St.'' \<noteq> ''123 main street'' \<and>
   buildSmartQuery ''N Elm Ave'' \<noteq> ''north elm avenue''"
  by code_simp

section \<open>Properties of the distance calculator\<close>

lemma half_sum_lower: "- 1 \<le> k \<Longrightarrow> - t \<le> (1 - 2 * t + k) / 2" for k t :: real
  by (simp add: field_simps)

lemma half_sum_upper: "k \<le> 1 \<Longrightarrow> (1 - 2 * t + k) / 2 \<le> 1 - t" for k t :: real
  by (simp add: field_simps)

lemma scaled_between:
  fixes P t s :: real
  assumes "0 \<le> s" "s \<le> 1" "- t \<le> P" "P \<le> 1 - t" "0 \<le> t" "t \<le> 1"
  shows "0 \<le> t + P * s \<and> t + P * s \<le> 1"
proof (cases "0 \<le> P")
  case True
  then have "0 \<le> P * s" "P * s \<le> P"
    using assms by (simp_all add: mult_left_le)
  then show ?thesis using assms by linarith
next
  case False
  then have "P * 1 \<le> P * s" "P * s \<le> 0"
    using assms by (simp_all add: mult_le_0_iff mult_le_cancel_left2)
  then show ?thesis using assms by linarith
qed

lemma haversine_core:
  fixes x u v s :: real
  assumes s: "0 \<le> s" "s \<le> 1" and x: "v - u = 2 * x"
  shows "0 \<le> (sin x)\<^sup>2 + cos u * cos v * s \<and> (sin x)\<^sup>2 + cos u * cos v * s \<le> 1"
proof -
  have prod: "cos u * cos v = (cos (v - u) + cos (v + u)) / 2"
    by (simp add: cos_add cos_diff)
  have dbl: "cos (v - u) = 1 - 2 * (sin x)\<^sup>2"
    by (simp add: x cos_double_sin)
  have lo: "- (sin x)\<^sup>2 \<le> cos u * cos v"
    unfolding prod dbl by (rule half_sum_lower) simp
  have hi: "cos u * cos v \<le> 1 - (sin x)\<^sup>2"
    unfolding prod dbl by (rule half_sum_upper) simp
  have sq: "0 \<le> (sin x)\<^sup>2" "(sin x)\<^sup>2 \<le> 1"
    by (simp_all add: abs_square_le_1)
  show ?thesis
    by (rule scaled_between [OF s lo hi sq])
qed

text \<open>
  In exact arithmetic the argument of both square roots lies between 0 and 1 for all
  coordinates, so neither root is taken of a negative number.
\<close>

lemma haversine_a_range: "0 \<le> haversine_a a b c d \<and> haversine_a a b c d \<le> 1"
proof -
  let ?x = "(c - a) * pi / 180 / 2"
  let ?s = "(sin ((d - b) * pi / 180 / 2))\<^sup>2"
  have s: "0 \<le> ?s" "?s \<le> 1" by (simp_all add: abs_square_le_1)
  have x: "c * pi / 180 - a * pi / 180 = 2 * ?x"
  proof -
    have "2 * ?x = (c - a) * pi / 180" by simp
    also have "\<dots> = c * pi / 180 - a * pi / 180"
      by (simp add: left_diff_distrib diff_divide_distrib)
    finally show ?thesis by simp
  qed
  have eq: "haversine_a a b c d = (sin ?x)\<^sup>2 + cos (a * pi / 180) * cos (c * pi / 180) * ?s"
    by (simp add: haversine_a_def Let_def power2_eq_square algebra_simps)
  show ?thesis
    unfolding eq using haversine_core [OF s x] by simp
qed

lemma atan2_nonneg:
  assumes "0 \<le> y"
  shows "0 \<le> atan2 y x"
proof -
  have "0 \<le> arctan (y / x) + pi"
    using arctan_lbound [of "y / x"] pi_gt_zero by linarith
  moreover have "0 < x \<Longrightarrow> 0 \<le> arctan (y / x)"
    using assms by simp
  ultimately show ?thesis
    using assms by (auto simp: atan2_def)
qed

lemma haversine_a_sym: "haversine_a a b c d = haversine_a c d a b"
proof -
  have 1: "(a - c) * pi / 180 / 2 = - ((c - a) * pi / 180 / 2)"
    by (simp add: left_diff_distrib diff_divide_distrib)
  have 2: "(b - d) * pi / 180 / 2 = - ((d - b) * pi / 180 / 2)"
    by (simp add: left_diff_distrib diff_divide_distrib)
  show ?thesis
    unfolding haversine_a_def Let_def 1 2 sin_minus by (simp add: algebra_simps)
qed

lemma haversine_a_same: "haversine_a a b a b = 0"
  by (simp add: haversine_a_def)

text \<open>
  In exact arithmetic the distance from a coordinate to itself is 0, the distance is the same
  in both directions, and it is never negative. These are facts of the real-valued formula
  only; they say nothing of the rounding of doubles.
\<close>

lemma getDistance_exact_zero_symmetric_nonneg:
  "getDistance lat1 lon1 lat1 lon1 = 0 \<and>
   getDistance lat1 lon1 lat2 lon2 = getDistance lat2 lon2 lat1 lon1 \<and>
   0 \<le> getDistance lat1 lon1 lat2 lon2"
proof (intro conjI)
  show "getDistance lat1 lon1 lat1 lon1 = 0"
    by (simp add: getDistance_def haversine_a_same atan2_def)
  show "getDistance lat1 lon1 lat2 lon2 = getDistance lat2 lon2 lat1 lon1"
    by (simp add: getDistance_def haversine_a_sym [of lat1 lon1 lat2 lon2])
  have "0 \<le> sqrt (haversine_a lat1 lon1 lat2 lon2)"
    using haversine_a_range [of lat1 lon1 lat2 lon2] by simp
  then show "0 \<le> getDistance lat1 lon1 lat2 lon2"
    by (simp add: getDistance_def Let_def atan2_nonneg)
qed

section \<open>Properties of the result filter and ranker\<close>

lemma str_truthy_named: "str_truthy v = named v"
  by (cases v) (simp_all add: str_truthy_def named_def)

lemma str_truthy_js_or: "str_truthy (js_or a b) = (str_truthy a \<or> str_truthy b)"
  by (simp add: js_or_def)

lemma named_js_or: "named (js_or a b) = (named a \<or> named b)"
  by (simp add: str_truthy_named [symmetric] str_truthy_js_or)

lemma keep_place_spec: "keep_place p = spec_retained p"
  by (cases "address p")
     (auto simp: keep_place_def spec_retained_def excludeTypes_def Let_def
        str_truthy_named named_js_or)

lemma validAddresses_examples:
  "validAddresses [example_house, example_city, example_shop] = [example_house, example_shop]"
  "validAddresses [example_shop, example_city, example_house] = [example_shop, example_house]"
  by (simp_all add: validAddresses_def keep_place_spec spec_retained_def example_house_def
      example_city_def example_shop_def no_addr_def named_def)

text \<open>
  Claim C2. The filter retains a candidate exactly when it has an address breakdown, its
  place type is none of the six excluded ones, and it names a road or one of building,
  amenity, shop, office, house number; a candidate of type \<^verbatim>\<open>city\<close> is always dropped.
\<close>

theorem validAddresses_retains_iff:
  "validAddresses data = filter spec_retained data \<and>
   (p \<in> set (validAddresses data) \<longleftrightarrow> p \<in> set data \<and> spec_retained p) \<and>
   (place_type p = ''city'' \<longrightarrow> p \<notin> set (validAddresses data))"
proof -
  have eq: "validAddresses data = filter spec_retained data"
    unfolding validAddresses_def by (rule filter_cong) (simp_all add: keep_place_spec)
  have "place_type p = ''city'' \<Longrightarrow> \<not> spec_retained p"
    by (simp add: spec_retained_def split: option.splits)
  with eq show ?thesis by auto
qed

theorem validAddresses_retains_iff_witness:
  "place_type example_city = ''city'' \<and>
   example_city \<notin> set (validAddresses [example_house, example_city, example_shop]) \<and>
   validAddresses [example_house, example_city, example_shop] = [example_house, example_shop]"
proof -
  let ?data = "[example_house, example_city, example_shop]"
  have city: "place_type example_city = ''city''"
    by (simp add: example_city_def)
  have "place_type example_city = ''city'' \<longrightarrow> example_city \<notin> set (validAddresses ?data)"
    using validAddresses_retains_iff [of ?data example_city] by blast
  with city have "example_city \<notin> set (validAddresses ?data)"
    by blast
  with city validAddresses_examples(1) show ?thesis
    by blast
qed

text \<open>Ranking with a usable reference: the sort is insertion by the distance key.\<close>

lemma js_insert_insort:
  "distance x \<noteq> None \<Longrightarrow> list_all (\<lambda>p. distance p \<noteq> None) ys \<Longrightarrow>
   js_insert x ys = insort_key dist_key x ys"
  by (induction ys) (auto simp: sort_compare_def dist_key_def)

lemma js_sort_sort_key:
  "list_all (\<lambda>p. distance p \<noteq> None) xs \<Longrightarrow> js_sort xs = sort_key dist_key xs"
proof (induction xs)
  case Nil
  then show ?case by (simp add: js_sort_def)
next
  case (Cons x xs)
  then have all: "list_all (\<lambda>p. distance p \<noteq> None) (sort_key dist_key xs)"
    by (simp add: list_all_iff)
  from Cons show ?case
    using js_insert_insort [OF _ all, of x] by (simp add: js_sort_def)
qed

lemma searchAddresses_result_usable:
  assumes "latitude l = Some la" "longitude l = Some lo" "la \<noteq> 0" "lo \<noteq> 0"
  shows "searchAddresses_result (Some l) data =
         sort_key dist_key (map (set_distance la lo) (validAddresses data))"
proof -
  have "list_all (\<lambda>p. distance p \<noteq> None) (map (set_distance la lo) (validAddresses data))"
    by (simp add: list_all_iff set_distance_def)
  then show ?thesis
    using assms by (simp add: searchAddresses_result_def js_sort_sort_key)
qed

text \<open>
  With a reference whose latitude and longitude are both present and not zero, every
  surviving candidate gets its distance from the reference, the result is in ascending order
  of distance, and candidates at the same distance keep the provider's order.
\<close>

lemma searchAddresses_result_ranked:
  assumes "latitude l = Some la" "longitude l = Some lo" "la \<noteq> 0" "lo \<noteq> 0"
  shows "sorted (map dist_key (searchAddresses_result (Some l) data))"
    and "set (searchAddresses_result (Some l) data) = set_distance la lo ` set (validAddresses data)"
    and "length (searchAddresses_result (Some l) data) = length (validAddresses data)"
    and "p \<in> set (searchAddresses_result (Some l) data) \<Longrightarrow>
         distance p = Some (getDistance la lo (lat p) (lon p))"
    and "filter (\<lambda>p. dist_key p = d) (searchAddresses_result (Some l) data) =
         filter (\<lambda>p. dist_key p = d) (map (set_distance la lo) (validAddresses data))"
  unfolding searchAddresses_result_usable [OF assms]
  by (auto simp: sort_key_stable set_distance_def)

lemma searchAddresses_result_unusable:
  "\<not> location_usable ul \<Longrightarrow> searchAddresses_result ul data = validAddresses data"
  by (auto simp: location_usable_def num_truthy_def searchAddresses_result_def
      split: option.splits)

lemma build_request_unusable:
  "\<not> location_usable ul \<Longrightarrow> viewbox (build_request query ul) = None"
  by (auto simp: location_usable_def num_truthy_def build_request_def Let_def
      split: option.splits)

text \<open>
  Claim C10. A reference with latitude 0 or longitude 0 is treated as no reference: the
  request carries no viewbox, the result is the filtered list in the provider's order, and no
  candidate gets a distance.
\<close>

theorem zero_coordinate_reference_is_absent:
  assumes "latitude l = Some 0 \<or> longitude l = Some 0"
  shows "viewbox (build_request query (Some l)) = None \<and>
         build_request query (Some l) = build_request query None \<and>
         searchAddresses_result (Some l) data = validAddresses data \<and>
         searchAddresses_result (Some l) data = searchAddresses_result None data \<and>
         map distance (searchAddresses_result (Some l) data) = map distance (validAddresses data)"
proof -
  have "\<not> location_usable (Some l)"
    using assms by (auto simp: location_usable_def num_truthy_def)
  then have "searchAddresses_result (Some l) data = validAddresses data"
    by (rule searchAddresses_result_unusable)
  moreover have "build_request query (Some l) = build_request query None"
    using assms by (auto simp: build_request_def Let_def split: option.splits)
  moreover have "viewbox (build_request query None) = None"
    by (simp add: build_request_def Let_def)
  moreover have "searchAddresses_result None data = validAddresses data"
    by (simp add: searchAddresses_result_def)
  ultimately show ?thesis by simp
qed

theorem zero_coordinate_reference_is_absent_witness:
  "longitude greenwich = Some 0 \<and>
   viewbox (build_request ''10 Downing St'' (Some greenwich)) = None \<and>
   searchAddresses_result (Some greenwich) [example_shop, example_city, example_house] =
     [example_shop, example_house] \<and>
   map distance (searchAddresses_result (Some greenwich) [example_shop, example_city, example_house]) =
     [None, None]"
proof -
  let ?data = "[example_shop, example_city, example_house]"
  have lon0: "longitude greenwich = Some 0"
    by (simp add: greenwich_def)
  then have zero: "latitude greenwich = Some 0 \<or> longitude greenwich = Some 0"
    by blast
  note absent = zero_coordinate_reference_is_absent [OF zero, of "''10 Downing St''" ?data]
  have v: "viewbox (build_request ''10 Downing St'' (Some greenwich)) = None"
    using absent by blast
  have "searchAddresses_result (Some greenwich) ?data = validAddresses ?data"
    using absent by blast
  then have r: "searchAddresses_result (Some greenwich) ?data = [example_shop, example_house]"
    by (simp only: validAddresses_examples(2))
  have d: "map distance (searchAddresses_result (Some greenwich) ?data) = [None, None]"
    unfolding r by (simp add: example_shop_def example_house_def)
  from lon0 v r d show ?thesis
    by blast
qed

text \<open>
  Claim C1. The claim: when a reference coordinate is supplied, every surviving candidate gets
  its distance from the reference and the result is sorted by it. For a user on the equator
  the code takes the latitude 0 for a missing one: the surviving candidates come back in the
  provider's order, and none has a distance.
\<close>

theorem searchAddresses_result_on_equator:
  "latitude equator_user = Some 0 \<and> longitude equator_user = Some (- 78.4678) \<and>
   \<not> location_usable (Some equator_user) \<and>
   searchAddresses_result (Some equator_user) [example_shop, example_city, example_house] =
     [example_shop, example_house] \<and>
   map distance (searchAddresses_result (Some equator_user) [example_shop, example_city, example_house]) =
     [None, None]"
proof -
  let ?data = "[example_shop, example_city, example_house]"
  have unusable: "\<not> location_usable (Some equator_user)"
    by (simp add: location_usable_def num_truthy_def equator_user_def)
  have r: "searchAddresses_result (Some equator_user) ?data = [example_shop, example_house]"
    by (simp only: searchAddresses_result_unusable [OF unusable] validAddresses_examples(2))
  have d: "map distance (searchAddresses_result (Some equator_user) ?data) = [None, None]"
    unfolding r by (simp add: example_shop_def example_house_def)
  have "latitude equator_user = Some 0" "longitude equator_user = Some (- 78.4678)"
    by (simp_all add: equator_user_def)
  with unusable r d show ?thesis
    by blast
qed

section \<open>Properties of the orchestrator\<close>

lemma list_all_False: "list_all (\<lambda>x. False) xs \<Longrightarrow> xs = []"
  by (cases xs) simp_all

lemma clear_search_timeout_timers:
  assumes "list_all (\<lambda>(i, v). searchTimeout s = Some i) (timers s)"
  shows "timers (clear_search_timeout s) = []"
proof (cases "searchTimeout s")
  case None
  with assms have "list_all (\<lambda>x. False) (timers s)"
    by (simp add: list_all_iff)
  then show ?thesis
    using None by (simp add: clear_search_timeout_def list_all_False)
next
  case (Some t)
  with assms have "filter (\<lambda>(i, v). i \<noteq> t) (timers s) = []"
    by (auto simp: filter_empty_conv list_all_iff)
  then show ?thesis
    using Some by (simp add: clear_search_timeout_def)
qed

lemma abort_all_named:
  "list_all (\<lambda>r. \<not> aborted r \<longrightarrow> controller r = c) xs \<Longrightarrow>
   filter (\<lambda>r. \<not> aborted r) (map (\<lambda>r. if controller r = c then r\<lparr>aborted := True\<rparr> else r) xs) = []"
  by (induction xs) auto

lemma abort_search_request_live:
  assumes "list_all (\<lambda>r. currentSearchRequest s = Some (controller r)) (live_requests s)"
  shows "live_requests (abort_search_request s) = []"
proof (cases "currentSearchRequest s")
  case None
  with assms have "list_all (\<lambda>x. False) (live_requests s)"
    by (simp add: list_all_iff)
  then show ?thesis
    using None by (simp add: abort_search_request_def list_all_False live_requests_def)
next
  case (Some c)
  with assms have "list_all (\<lambda>r. \<not> aborted r \<longrightarrow> controller r = c) (inflight s)"
    by (auto simp: list_all_iff live_requests_def)
  then show ?thesis
    using Some by (simp add: abort_search_request_def live_requests_def abort_all_named)
qed

lemma abort_search_request_fields:
  "timers (abort_search_request s) = timers s"
  "currentSearchRequest (abort_search_request s) = None"
  "searchTimeout (abort_search_request s) = searchTimeout s"
  "requests_sent (abort_search_request s) = requests_sent s"
  "console_errors (abort_search_request s) = console_errors s"
  "autocomplete_results (abort_search_request s) = autocomplete_results s"
  "next_id (abort_search_request s) = next_id s"
  by (simp_all add: abort_search_request_def split: option.splits)

lemma clear_search_timeout_fields:
  "inflight (clear_search_timeout s) = inflight s"
  "live_requests (clear_search_timeout s) = live_requests s"
  "currentSearchRequest (clear_search_timeout s) = currentSearchRequest s"
  "searchTimeout (clear_search_timeout s) = None"
  "requests_sent (clear_search_timeout s) = requests_sent s"
  "console_errors (clear_search_timeout s) = console_errors s"
  "autocomplete_results (clear_search_timeout s) = autocomplete_results s"
  "next_id (clear_search_timeout s) = next_id s"
  by (simp_all add: clear_search_timeout_def live_requests_def split: option.splits)

lemma cancel_pending_clears:
  assumes "session_inv s"
  shows "timers (cancel_pending s) = []"
    and "live_requests (cancel_pending s) = []"
    and "searchTimeout (cancel_pending s) = None"
    and "currentSearchRequest (cancel_pending s) = None"
    and "isLocationSelected (cancel_pending s) = False"
    and "requests_sent (cancel_pending s) = requests_sent s"
    and "console_errors (cancel_pending s) = console_errors s"
proof -
  have t: "timers (clear_search_timeout s) = []"
    using assms by (simp add: session_inv_def clear_search_timeout_timers)
  have "list_all (\<lambda>r. currentSearchRequest (clear_search_timeout s) = Some (controller r))
          (live_requests (clear_search_timeout s))"
    using assms by (simp add: session_inv_def clear_search_timeout_fields)
  then have l: "live_requests (abort_search_request (clear_search_timeout s)) = []"
    by (rule abort_search_request_live)
  show "timers (cancel_pending s) = []"
    by (simp add: cancel_pending_def abort_search_request_fields t)
  show "live_requests (cancel_pending s) = []"
    using l by (simp add: cancel_pending_def live_requests_def)
  show "searchTimeout (cancel_pending s) = None"
    by (simp add: cancel_pending_def abort_search_request_fields clear_search_timeout_fields)
  show "currentSearchRequest (cancel_pending s) = None"
    by (simp add: cancel_pending_def abort_search_request_fields)
  show "isLocationSelected (cancel_pending s) = False"
    by (simp add: cancel_pending_def)
  show "requests_sent (cancel_pending s) = requests_sent s"
    by (simp add: cancel_pending_def abort_search_request_fields clear_search_timeout_fields)
  show "console_errors (cancel_pending s) = console_errors s"
    by (simp add: cancel_pending_def abort_search_request_fields clear_search_timeout_fields)
qed

lemma session_inv_new: "session_inv (new_session sel res)"
  by (simp add: session_inv_def new_session_def live_requests_def)

lemma session_inv_handleInput:
  assumes "session_inv s"
  shows "session_inv (handleInput text s)"
  using cancel_pending_clears [OF assms]
  by (simp add: handleInput_def Let_def session_inv_def live_requests_def)

lemma session_inv_timer_fires:
  assumes "session_inv s"
  shows "session_inv (timer_fires t s)"
proof (cases "map_of (timers s) t")
  case None
  then show ?thesis using assms by (simp add: timer_fires_def)
next
  case (Some val)
  then have "timers s \<noteq> []" by auto
  with assms have live: "live_requests s = []" and len: "length (timers s) \<le> 1"
    by (auto simp: session_inv_def)
  from Some len have "timers s = [(t, val)]"
    by (cases "timers s") (auto split: if_splits)
  then show ?thesis
    using Some live
    by (simp add: timer_fires_def Let_def session_inv_def live_requests_def)
qed

lemma search_settled_fields:
  assumes "search_settled outcome s = Inr s'"
  shows "timers s' = timers s" "inflight s' = inflight s" "searchTimeout s' = searchTimeout s"
    and "requests_sent s' = requests_sent s" "isLocationSelected s' = isLocationSelected s"
    and "currentSearchRequest s' = None \<or> currentSearchRequest s' = currentSearchRequest s"
  using assms
  by (auto simp: search_settled_def displayResults_def Let_def split: sum.splits if_splits)

lemma search_settled_total: "\<exists>s'. search_settled outcome s = Inr s'"
  by (simp add: search_settled_def Let_def split: sum.splits)

lemma session_inv_lookup_settles:
  assumes "session_inv s"
  shows "session_inv (lookup_settles c answer s)"
proof (cases "find (\<lambda>r. controller r = c) (inflight s)")
  case None
  then show ?thesis using assms by (simp add: lookup_settles_def)
next
  case (Some r)
  define s1 where "s1 = s\<lparr>inflight := filter (\<lambda>r. controller r \<noteq> c) (inflight s)\<rparr>"
  define outcome where "outcome = (if aborted r then Inl abort_error
     else case answer of Inl err \<Rightarrow> Inl err
          | Inr data \<Rightarrow> Inr (searchAddresses_result (reference r) data))"
  obtain s2 where s2: "search_settled outcome s1 = Inr s2"
    using search_settled_total by blast
  have res: "lookup_settles c answer s = s2"
    using Some s2 by (simp add: lookup_settles_def Let_def s1_def outcome_def)
  have r: "r \<in> set (inflight s)" "controller r = c"
    using Some by (auto simp: find_Some_iff)
  have live1: "live_requests s1 = filter (\<lambda>r. controller r \<noteq> c) (live_requests s)"
    by (auto simp: live_requests_def s1_def intro: filter_cong)
  have inv1: "session_inv s1"
    using assms unfolding session_inv_def live1
    by (auto simp: s1_def list_all_iff intro: le_trans [OF length_filter_le])
  show ?thesis
  proof (cases "aborted r")
    case True
    then have "s2 = s1\<lparr>statusIcon := Idle\<rparr>"
      using s2 by (simp add: outcome_def search_settled_def abort_error_def)
    then show ?thesis
      using inv1 by (simp add: res session_inv_def live_requests_def)
  next
    case False
    with r have "r \<in> set (live_requests s)"
      by (simp add: live_requests_def)
    moreover from assms have "length (live_requests s) \<le> 1"
      by (simp add: session_inv_def)
    ultimately have "live_requests s = [r]"
      by (cases "live_requests s") auto
    then have "live_requests s1 = []"
      using r by (simp add: live1)
    then have "live_requests s2 = []"
      using search_settled_fields(2) [OF s2] by (simp add: live_requests_def)
    then show ?thesis
      using inv1 search_settled_fields(1,3) [OF s2]
      by (simp add: res session_inv_def)
  qed
qed

lemma session_inv_selectAddress:
  assumes "session_inv s"
  shows "session_inv (selectAddress p cleanAddress s)"
proof -
  have "list_all (\<lambda>r. currentSearchRequest (s\<lparr>isLocationSelected := True\<rparr>) = Some (controller r))
          (live_requests (s\<lparr>isLocationSelected := True\<rparr>))"
    using assms by (simp add: session_inv_def live_requests_def)
  then have "live_requests (abort_search_request (s\<lparr>isLocationSelected := True\<rparr>)) = []"
    by (rule abort_search_request_live)
  then show ?thesis
    using assms
    by (simp add: selectAddress_def Let_def session_inv_def live_requests_def
        abort_search_request_fields)
qed

lemma session_inv_step: "session_inv s \<Longrightarrow> session_inv (step e s)"
  by (cases e)
     (simp_all add: session_inv_handleInput session_inv_timer_fires session_inv_lookup_settles
        session_inv_selectAddress,
      simp_all add: session_inv_def checkmark_fires_def setUserLocation_def live_requests_def Let_def)

lemma session_inv_run: "session_inv s \<Longrightarrow> session_inv (run evs s)"
  unfolding run_def by (induction evs arbitrary: s) (simp_all add: session_inv_step)


lemma lookup_settles_fields:
  "timers (lookup_settles c answer s) = timers s"
  "requests_sent (lookup_settles c answer s) = requests_sent s"
  "isLocationSelected (lookup_settles c answer s) = isLocationSelected s"
proof -
  have "timers (lookup_settles c answer s) = timers s \<and>
        requests_sent (lookup_settles c answer s) = requests_sent s \<and>
        isLocationSelected (lookup_settles c answer s) = isLocationSelected s"
  proof (cases "find (\<lambda>r. controller r = c) (inflight s)")
    case None
    then show ?thesis by (simp add: lookup_settles_def)
  next
    case (Some r)
    define s1 where "s1 = s\<lparr>inflight := filter (\<lambda>r. controller r \<noteq> c) (inflight s)\<rparr>"
    define outcome where "outcome = (if aborted r then Inl abort_error
       else case answer of Inl err \<Rightarrow> Inl err
            | Inr data \<Rightarrow> Inr (searchAddresses_result (reference r) data))"
    obtain s2 where s2: "search_settled outcome s1 = Inr s2"
      using search_settled_total by blast
    have "lookup_settles c answer s = s2"
      using Some s2 by (simp add: lookup_settles_def Let_def s1_def outcome_def)
    then show ?thesis
      using search_settled_fields(1,4,5) [OF s2] by (simp add: s1_def)
  qed
  then show "timers (lookup_settles c answer s) = timers s"
    and "requests_sent (lookup_settles c answer s) = requests_sent s"
    and "isLocationSelected (lookup_settles c answer s) = isLocationSelected s"
    by simp_all
qed

lemma selectAddress_fields:
  "timers (selectAddress p cleanAddress s) = timers s"
  "requests_sent (selectAddress p cleanAddress s) = requests_sent s"
  "isLocationSelected (selectAddress p cleanAddress s) = True"
  by (simp_all add: selectAddress_def Let_def abort_search_request_def split: option.splits)

lemma quiet_step:
  assumes "\<not> is_input e" "timers s = []"
  shows "timers (step e s) = [] \<and> requests_sent (step e s) = requests_sent s"
  using assms
  by (cases e)
     (simp_all add: timer_fires_def lookup_settles_fields selectAddress_fields
        checkmark_fires_def setUserLocation_def Let_def)

text \<open>With no timer set, nothing but a keystroke can lead to a request.\<close>

lemma quiet_run:
  "list_all (\<lambda>e. \<not> is_input e) evs \<Longrightarrow> timers s = [] \<Longrightarrow>
   requests_sent (run evs s) = requests_sent s"
  unfolding run_def
proof (induction evs arbitrary: s)
  case Nil
  then show ?case by simp
next
  case (Cons e evs)
  then have "timers (step e s) = []" "requests_sent (step e s) = requests_sent s"
    using quiet_step [of e s] by simp_all
  with Cons show ?case by simp
qed




lemmas session_defs =
  run_def new_session_def handleInput_def cancel_pending_def clear_search_timeout_def
  abort_search_request_def timer_fires_def lookup_settles_def search_settled_def
  selectAddress_def displayResults_def checkmark_fires_def setUserLocation_def
  live_requests_def in_flight_def Let_def

lemma trim_examples:
  "trim ''123 main'' = ''123 main''"
  "trim '' ab '' = ''ab''"
  by code_simp+

text \<open>
  Claim C5. Between any two events a session has at most one debounce timer set and at most
  one lookup in flight that is not cancelled. The head of every keystroke handler leaves no
  timer set and no uncancelled lookup, whatever the input; the handler then sets at most
  one new timer, and none when the trimmed input is shorter than 3.
\<close>

theorem one_timer_one_request:
  assumes "s = run evs (new_session sel res)"
  shows "length (timers s) \<le> 1 \<and> length (live_requests s) \<le> 1 \<and>
         timers (cancel_pending s) = [] \<and> live_requests (cancel_pending s) = [] \<and>
         searchTimeout (cancel_pending s) = None \<and>
         currentSearchRequest (cancel_pending s) = None \<and>
         length (timers (handleInput text s)) \<le> 1 \<and>
         live_requests (handleInput text s) = [] \<and>
         (length (trim text) < 3 \<longrightarrow> timers (handleInput text s) = [])"
proof -
  have inv: "session_inv s"
    unfolding assms by (rule session_inv_run [OF session_inv_new])
  note cleared = cancel_pending_clears [OF inv]
  have "length (timers (handleInput text s)) \<le> 1"
    using session_inv_handleInput [OF inv, of "text"] by (simp add: session_inv_def)
  moreover have "live_requests (handleInput text s) = []"
    using cleared(2) by (simp add: handleInput_def Let_def live_requests_def)
  moreover have "length (trim text) < 3 \<longrightarrow> timers (handleInput text s) = []"
    using cleared(1) by (simp add: handleInput_def Let_def)
  ultimately show ?thesis
    using inv cleared by (simp add: session_inv_def)
qed

theorem one_timer_one_request_witness:
  "length (live_requests (run [Input ''123 main'', TimerFires 1] (new_session True True))) = 1 \<and>
   length (trim '' ab '') < 3 \<and>
   live_requests (handleInput '' ab '' (run [Input ''123 main'', TimerFires 1] (new_session True True))) = [] \<and>
   timers (handleInput '' ab '' (run [Input ''123 main'', TimerFires 1] (new_session True True))) = []"
proof -
  let ?s = "run [Input ''123 main'', TimerFires 1] (new_session True True)"
  have one: "length (live_requests ?s) = 1"
    by (simp add: session_defs trim_examples)
  have short: "length (trim '' ab '') < 3"
    by (simp add: trim_examples)
  from one_timer_one_request [of "?s" "[Input ''123 main'', TimerFires 1]" True True "'' ab ''"]
  have "live_requests (handleInput '' ab '' ?s) = []"
    and "length (trim '' ab '') < 3 \<longrightarrow> timers (handleInput '' ab '' ?s) = []"
    by blast+
  with one short show ?thesis
    by blast
qed




















text \<open>
  Claim C7. A lookup that was cancelled, or that fails with an abort error, is not reported
  and leaves the status idle. Any other failure is reported once and leaves the status idle.
  In every case the callback ends normally: no error is thrown on.
\<close>

theorem cancellation_is_not_an_error:
  assumes "find (\<lambda>r. controller r = c) (inflight s) = Some r"
  shows "(\<exists>s'. search_settled outcome s = Inr s') \<and>
         (aborted r \<or> err_name err = ''AbortError'' \<longrightarrow>
            console_errors (lookup_settles c (Inl err) s) = console_errors s \<and>
            autocomplete_results (lookup_settles c (Inl err) s) = autocomplete_results s \<and>
            statusIcon (lookup_settles c (Inl err) s) = Idle) \<and>
         (\<not> aborted r \<and> err_name err \<noteq> ''AbortError'' \<longrightarrow>
            console_errors (lookup_settles c (Inl err) s) = console_errors s @ [err] \<and>
            autocomplete_results (lookup_settles c (Inl err) s) = autocomplete_results s \<and>
            statusIcon (lookup_settles c (Inl err) s) = Idle)"
  using assms search_settled_total [of outcome s]
  by (simp add: lookup_settles_def search_settled_def abort_error_def Let_def)

theorem cancellation_is_not_an_error_witness:
  "console_errors
     (lookup_settles 2 (Inl abort_error) (run [Input ''123 main'', TimerFires 1] (new_session True True))) = [] \<and>
   statusIcon
     (lookup_settles 2 (Inl abort_error) (run [Input ''123 main'', TimerFires 1] (new_session True True))) = Idle \<and>
   console_errors
     (lookup_settles 2 (Inl network_error) (run [Input ''123 main'', TimerFires 1] (new_session True True))) =
     [network_error] \<and>
   statusIcon
     (lookup_settles 2 (Inl network_error) (run [Input ''123 main'', TimerFires 1] (new_session True True))) = Idle"
proof -
  let ?s = "run [Input ''123 main'', TimerFires 1] (new_session True True)"
  let ?r = "\<lparr>controller = 2, sent = build_request ''123 main'' None, reference = None,
             aborted = False\<rparr>"
  have found: "find (\<lambda>r. controller r = 2) (inflight ?s) = Some ?r"
    by (simp add: session_defs trim_examples)
  have quiet: "console_errors ?s = []"
    by (simp add: session_defs trim_examples)
  have names: "err_name abort_error = ''AbortError''" "err_name network_error \<noteq> ''AbortError''"
    "\<not> aborted ?r"
    by (simp_all add: abort_error_def network_error_def)
  from cancellation_is_not_an_error [OF found, of "Inl abort_error" abort_error] names
  have a: "console_errors (lookup_settles 2 (Inl abort_error) ?s) = console_errors ?s"
    "statusIcon (lookup_settles 2 (Inl abort_error) ?s) = Idle"
    by blast+
  from cancellation_is_not_an_error [OF found, of "Inl network_error" network_error] names
  have b: "console_errors (lookup_settles 2 (Inl network_error) ?s) = console_errors ?s @ [network_error]"
    "statusIcon (lookup_settles 2 (Inl network_error) ?s) = Idle"
    by blast+
  from a b quiet show ?thesis
    by simp
qed

text \<open>
  Claim C8. A keystroke whose trimmed input is shorter than 3 sends no request, leaves no timer
  set and no lookup uncancelled, clears the suggestions, sets the status idle and reports
  nothing; and no request is sent afterwards either, until the next keystroke.
\<close>

theorem short_input_issues_no_lookup:
  assumes "s = run evs (new_session sel res)"
    and "length (trim text) < 3"
    and "list_all (\<lambda>e. \<not> is_input e) later"
  shows "timers (handleInput text s) = [] \<and>
         live_requests (handleInput text s) = [] \<and>
         suggestionsList (handleInput text s) = [] \<and>
         statusIcon (handleInput text s) = Idle \<and>
         console_errors (handleInput text s) = console_errors s \<and>
         requests_sent (handleInput text s) = requests_sent s \<and>
         requests_sent (run later (handleInput text s)) = requests_sent s"
proof -
  have inv: "session_inv s"
    unfolding assms(1) by (rule session_inv_run [OF session_inv_new])
  note cleared = cancel_pending_clears [OF inv]
  have eq: "handleInput text s = (cancel_pending s)\<lparr>suggestionsList := [], statusIcon := Idle\<rparr>"
    using assms(2) by (simp add: handleInput_def Let_def)
  have t: "timers (handleInput text s) = []"
    and q: "requests_sent (handleInput text s) = requests_sent s"
    using cleared by (simp_all add: eq)
  have "requests_sent (run later (handleInput text s)) = requests_sent (handleInput text s)"
    using assms(3) t by (rule quiet_run)
  with t q show ?thesis
    using cleared by (simp add: eq live_requests_def)
qed

theorem short_input_issues_no_lookup_witness:
  "length (trim '' ab '') < 3 \<and>
   timers (run [Input ''123 main''] (new_session True True)) = [(1, ''123 main'')] \<and>
   timers (handleInput '' ab '' (run [Input ''123 main''] (new_session True True))) = [] \<and>
   requests_sent
     (run [TimerFires 1, CheckmarkFires]
       (handleInput '' ab '' (run [Input ''123 main''] (new_session True True)))) = []"
proof -
  let ?s = "run [Input ''123 main''] (new_session True True)"
  have short: "length (trim '' ab '') < 3"
    by (simp add: trim_examples)
  have later: "list_all (\<lambda>e. \<not> is_input e) [TimerFires 1, CheckmarkFires]"
    by simp
  have before: "timers ?s = [(1, ''123 main'')]" "requests_sent ?s = []"
    by (simp_all add: session_defs trim_examples)
  from short_input_issues_no_lookup [OF refl short later, of "[Input ''123 main'']" True True]
  have "timers (handleInput '' ab '' ?s) = []"
    and "requests_sent (run [TimerFires 1, CheckmarkFires] (handleInput '' ab '' ?s)) = requests_sent ?s"
    by blast+
  with short before show ?thesis
    by simp
qed

end
